theory Spec2Isabelle
  imports Main "HOL-Library.AList"
begin

section \<open>Room condition forms: the row-to-dict mapping\<close>

text \<open>
  The package \<^verbatim>\<open>mirthful_rcis\<close> opens its sqlite connection with
  \<^verbatim>\<open>row_factory = dict_factory\<close>, so every row that is read from the
  store is handed over as a plain dictionary. This theory embeds
  \<^verbatim>\<open>dict_factory\<close> as it is written in
  \<^verbatim>\<open>mirthful_rcis/__init__.py\<close>.
\<close>

subsection \<open>Errors\<close>

text \<open>
  Exceptions are values. The one exception \<^verbatim>\<open>dict_factory\<close> can raise is
  Python's IndexError, from \<^verbatim>\<open>row[idx]\<close> out of range.
\<close>

datatype error = IndexError

subsection \<open>Python dictionaries\<close>

text \<open>
  A dictionary is an association list with pairwise distinct keys, in insertion order.
  The assignment \<^verbatim>\<open>d[k] = v\<close> overwrites the value of a key that is present,
  in place, and appends a new key at the end: this is \<^const>\<open>AList.update\<close>.
  Reading \<^verbatim>\<open>d[k]\<close> is \<^const>\<open>map_of\<close>, the keys are \<open>map fst d\<close> and
  \<^verbatim>\<open>len(d)\<close> is \<^const>\<open>length\<close>.
\<close>

type_synonym ('k, 'v) dict = "('k \<times> 'v) list"

definition setitem :: "('k, 'v) dict \<Rightarrow> 'k \<Rightarrow> 'v \<Rightarrow> ('k, 'v) dict" where
  "setitem d k v = AList.update k v d"

subsection \<open>Cursors and \<^verbatim>\<open>dict_factory\<close>\<close>

text \<open>
  \<^verbatim>\<open>cursor.description\<close> is a sequence with one entry per column of the result;
  \<^verbatim>\<open>col[0]\<close> is the column's name and the rest of the entry (six more fields in
  the DB-API) is not read, so an entry is a pair of the name and the rest. A cursor that
  hands a row to its row factory has run a query, so its description is a sequence.
\<close>

type_synonym 'm column = "string \<times> 'm"

record 'm cursor =
  description :: "'m column list"

text \<open>
  \<^verbatim>\<open>
  def dict_factory(cursor, row):
      d = {}
      for idx, col in enumerate(cursor.description):
          d[col[0]] = row[idx]
      return d
  \<close>
  The loop runs over \<^verbatim>\<open>enumerate(cursor.description)\<close> with the dictionary as
  its state. \<^verbatim>\<open>row[idx]\<close> raises IndexError when the row has no value at
  \<open>idx\<close> (\<open>idx\<close> is never negative here), and the exception leaves the function.
\<close>

fun dict_factory_loop ::
  "(nat \<times> 'm column) list \<Rightarrow> 'v list \<Rightarrow> (string, 'v) dict \<Rightarrow> error + (string, 'v) dict" where
  "dict_factory_loop [] row d = Inr d"
| "dict_factory_loop ((idx, col) # rest) row d =
     (if idx < length row
      then dict_factory_loop rest row (setitem d (fst col) (row ! idx))
      else Inl IndexError)"

definition dict_factory :: "'m cursor \<Rightarrow> 'v list \<Rightarrow> error + (string, 'v) dict" where
  "dict_factory cursor row = dict_factory_loop (enumerate 0 (description cursor)) row []"

text \<open>The column names of a cursor, in the order of the description.\<close>

definition column_names :: "'m cursor \<Rightarrow> string list" where
  "column_names cursor = map fst (description cursor)"

subsection \<open>The loop of \<^verbatim>\<open>dict_factory\<close>\<close>

text \<open>
  With a row that is long enough the loop never raises, and it is the iterated update
  of the dictionary with the names paired with the values at their positions.
\<close>

lemma dict_factory_loop_updates:
  "n + length cols \<le> length row \<Longrightarrow>
   dict_factory_loop (enumerate n cols) row d =
     Inr (AList.updates (map fst cols) (take (length cols) (drop n row)) d)"
proof (induction cols arbitrary: n d)
  case Nil
  then show ?case by simp
next
  case (Cons c cols)
  from Cons.prems have lt: "n < length row" and le: "Suc n + length cols \<le> length row"
    by simp_all
  from lt have dr: "drop n row = row ! n # drop (Suc n) row"
    by (simp add: Cons_nth_drop_Suc)
  show ?case
    using lt Cons.IH [OF le] by (simp add: dr setitem_def)
qed

lemma dict_factory_loop_short:
  "n \<le> length row \<Longrightarrow> length row < n + length cols \<Longrightarrow>
   dict_factory_loop (enumerate n cols) row d = Inl IndexError"
proof (induction cols arbitrary: n d)
  case Nil
  then show ?case by simp
next
  case (Cons c cols)
  show ?case
  proof (cases "n < length row")
    case True
    with Cons.prems have "Suc n \<le> length row" "length row < Suc n + length cols"
      by simp_all
    from Cons.IH [OF this] True show ?thesis by simp
  next
    case False
    then show ?thesis by simp
  qed
qed

lemma dict_factory_updates:
  assumes "length (description cursor) \<le> length row"
  shows "dict_factory cursor row =
    Inr (AList.updates (column_names cursor) (take (length (description cursor)) row) [])"
  using dict_factory_loop_updates [of 0 "description cursor" row "[]"] assms
  by (simp add: dict_factory_def column_names_def)

lemma dict_factory_short_row:
  "length row < length (description cursor) \<Longrightarrow> dict_factory cursor row = Inl IndexError"
  using dict_factory_loop_short [of 0 row "description cursor" "[]"]
  by (simp add: dict_factory_def)

text \<open>Appending fresh keys: with distinct new names the dictionary grows by one entry each.\<close>

lemma update_fresh: "k \<notin> fst ` set al \<Longrightarrow> AList.update k v al = al @ [(k, v)]"
  by (induction al) auto

lemma updates_fresh:
  "distinct ks \<Longrightarrow> set ks \<inter> fst ` set al = {} \<Longrightarrow> length ks = length vs \<Longrightarrow>
   AList.updates ks vs al = al @ zip ks vs"
proof (induction ks arbitrary: vs al)
  case Nil
  then show ?case by simp
next
  case (Cons k ks)
  then obtain v vs' where vs: "vs = v # vs'" by (cases vs) auto
  from Cons.prems have fresh: "k \<notin> fst ` set al" by auto
  have "set ks \<inter> fst ` set (al @ [(k, v)]) = {}"
    using Cons.prems by auto
  with Cons.IH [of "al @ [(k, v)]" vs'] Cons.prems vs
  have "AList.updates ks vs' (al @ [(k, v)]) = (al @ [(k, v)]) @ zip ks vs'"
    by simp
  with fresh show ?case by (simp add: vs update_fresh)
qed

text \<open>
  Where a name occurs more than once, the value of its last column is the one that stays.
\<close>

lemma map_upds_last_index:
  "i < length ks \<Longrightarrow> length ks = length vs \<Longrightarrow>
   (\<forall>j. i < j \<and> j < length ks \<longrightarrow> ks ! j \<noteq> ks ! i) \<Longrightarrow>
   (m(ks [\<mapsto>] vs)) (ks ! i) = Some (vs ! i)"
proof (induction ks arbitrary: i vs m)
  case Nil
  then show ?case by simp
next
  case (Cons k ks)
  then obtain v vs' where vs: "vs = v # vs'" by (cases vs) auto
  show ?case
  proof (cases i)
    case 0
    have "k \<notin> set ks"
    proof
      assume "k \<in> set ks"
      then obtain j where "j < length ks" "ks ! j = k" by (auto simp: in_set_conv_nth)
      with Cons.prems(3) 0 show False by (auto dest: spec [of _ "Suc j"])
    qed
    with 0 vs show ?thesis by simp
  next
    case (Suc i')
    have "\<forall>j. i' < j \<and> j < length ks \<longrightarrow> ks ! j \<noteq> ks ! i'"
    proof (intro allI impI)
      fix j assume "i' < j \<and> j < length ks"
      with Cons.prems(3) Suc show "ks ! j \<noteq> ks ! i'" by (auto dest: spec [of _ "Suc j"])
    qed
    moreover from Cons.prems Suc vs have "i' < length ks" "length ks = length vs'"
      by simp_all
    ultimately have "((m(k \<mapsto> v))(ks [\<mapsto>] vs')) (ks ! i') = Some (vs' ! i')"
      by (intro Cons.IH)
    with Suc vs show ?thesis by (simp del: fun_upd_apply)
  qed
qed

subsection \<open>Claim C9: the row-to-dict mapping\<close>

text \<open>
  C9 says that for every cursor and row the dictionary has exactly the column names as
  keys, the value \<^verbatim>\<open>row[i]\<close> for the column at index \<open>i\<close>, and one entry
  per described column. With two columns of the same name (a join that selects
  \<^verbatim>\<open>user_id\<close> from both tables) the second assignment overwrites the first:
  one entry is left, and it holds the value of the second column, not of the first.
\<close>

theorem dict_factory_duplicate_columns_counterexample:
  "dict_factory \<lparr>description = [(''user_id'', ()), (''user_id'', ())]\<rparr> [1::int, 2]
     = Inr [(''user_id'', 2)]
   \<and> map_of [(''user_id'', 2::int)] ''user_id'' \<noteq> Some ([1::int, 2] ! 0)
   \<and> length [(''user_id'', 2::int)]
       \<noteq> length (description \<lparr>description = [(''user_id'', ()), (''user_id'', ())]\<rparr>)"
  by (simp add: dict_factory_def setitem_def)

text \<open>
  C9, as the code has it: for every cursor and every row with at least as many values
  as the cursor describes columns, \<^verbatim>\<open>dict_factory\<close> returns a dictionary whose
  keys are exactly the column names; the value under the name of the column at index
  \<open>i\<close> is \<^verbatim>\<open>row[i]\<close> whenever no later column has the same name; and when the
  column names are pairwise distinct the dictionary is the names paired with the values
  in order, so it has one entry per described column and \<^verbatim>\<open>row[i]\<close> for every
  column \<open>i\<close>.
\<close>

theorem dict_factory_row_mapping:
  assumes "length (description cursor) \<le> length row"
  shows "\<exists>d. dict_factory cursor row = Inr d
    \<and> distinct (map fst d)
    \<and> set (map fst d) = set (column_names cursor)
    \<and> (\<forall>i < length (description cursor).
          (\<forall>j. i < j \<and> j < length (description cursor) \<longrightarrow>
                column_names cursor ! j \<noteq> column_names cursor ! i)
          \<longrightarrow> map_of d (column_names cursor ! i) = Some (row ! i))
    \<and> (distinct (column_names cursor) \<longrightarrow>
          d = zip (column_names cursor) (take (length (description cursor)) row)
          \<and> length d = length (description cursor)
          \<and> (\<forall>i < length (description cursor).
                map_of d (column_names cursor ! i) = Some (row ! i)))"
proof -
  let ?ks = "column_names cursor"
  let ?vs = "take (length (description cursor)) row"
  let ?d = "AList.updates ?ks ?vs []"
  have len: "length ?ks = length ?vs"
    using assms by (simp add: column_names_def)
  have n: "length ?ks = length (description cursor)"
    by (simp add: column_names_def)
  have res: "dict_factory cursor row = Inr ?d"
    using assms by (rule dict_factory_updates)
  have dist: "distinct (map fst ?d)"
    by (rule AList.distinct_updates) simp
  have keys: "set (map fst ?d) = set ?ks"
  proof -
    have "dom (map_of ?d) = set ?ks"
      using len by (simp add: AList.updates_conv')
    then show ?thesis by (simp add: dom_map_of_conv_image_fst)
  qed
  have last: "map_of ?d (?ks ! i) = Some (row ! i)"
    if "i < length (description cursor)"
      and "\<forall>j. i < j \<and> j < length (description cursor) \<longrightarrow> ?ks ! j \<noteq> ?ks ! i" for i
  proof -
    have "(Map.empty(?ks [\<mapsto>] ?vs)) (?ks ! i) = Some (?vs ! i)"
      using that len n by (intro map_upds_last_index) simp_all
    then show ?thesis using that by (simp add: AList.updates_conv')
  qed
  have dcase: "?d = zip ?ks ?vs \<and> length ?d = length (description cursor)
      \<and> (\<forall>i < length (description cursor). map_of ?d (?ks ! i) = Some (row ! i))"
    if d: "distinct ?ks"
  proof -
    have eq: "?d = zip ?ks ?vs"
      using updates_fresh [of ?ks "[]" ?vs] d len by simp
    have l: "length ?d = length (description cursor)"
      using len n by (simp add: eq)
    have "map_of ?d (?ks ! i) = Some (row ! i)" if i: "i < length (description cursor)" for i
    proof (rule last [OF i], intro allI impI)
      fix j assume "i < j \<and> j < length (description cursor)"
      with d n i show "?ks ! j \<noteq> ?ks ! i" by (auto simp: nth_eq_iff_index_eq)
    qed
    with eq l show ?thesis by blast
  qed
  from res dist keys last dcase show ?thesis by blast
qed

text \<open>
  The theorem at a cursor with the columns \<^verbatim>\<open>rci_id\<close> and
  \<^verbatim>\<open>room_name\<close> and a row of two values.
\<close>

theorem dict_factory_row_mapping_witness:
  "length (description \<lparr>description = [(''rci_id'', ()), (''room_name'', ())]\<rparr>)
     \<le> length [''r1'', ''101'']
   \<and> dict_factory \<lparr>description = [(''rci_id'', ()), (''room_name'', ())]\<rparr> [''r1'', ''101'']
     = Inr [(''rci_id'', ''r1''), (''room_name'', ''101'')]"
  using dict_factory_row_mapping
    [of "\<lparr>description = [(''rci_id'', ()), (''room_name'', ())]\<rparr>" "[''r1'', ''101'']"]
  by (auto simp: column_names_def)

end
